theory Spec2Isabelle
  imports Complex_Main "HOL-Library.Product_Lexorder"
begin

section \<open>SQL text functions used by the warehouse queries\<close>

text \<open>
  The warehouse of \<^verbatim>\<open>run_task2.py\<close> is an SQLite database; the transformation is a
  sequence of SQL statements sent from \<^verbatim>\<open>Task2DataWarehouse\<close>. Each statement is
  embedded as a function on lists of rows. A text value is a \<^typ>\<open>string\<close>, one list
  element per character; SQL NULL is \<^const>\<open>None\<close>. Columns hold values of their
  declared type: integers in integer columns, well-formed time stamps in the date
  columns, and text without NUL characters (SQLite's \<^verbatim>\<open>LENGTH\<close> and \<^verbatim>\<open>LIKE\<close>
  stop at the first NUL).
\<close>

text \<open>SQLite's \<^verbatim>\<open>LOWER\<close> folds the ASCII letters A-Z only.\<close>

definition lower_char :: "char \<Rightarrow> char" where
  "lower_char c =
     (let n = (of_char c :: nat) in if 65 \<le> n \<and> n \<le> 90 then char_of (n + 32) else c)"

definition LOWER :: "string \<Rightarrow> string" where
  "LOWER s = map lower_char s"

text \<open>
  \<^verbatim>\<open>x LIKE '%kw%'\<close> for a keyword without wildcard characters: the keyword occurs
  somewhere in \<open>x\<close>. (LIKE ignores ASCII case; every keyword of the source is lower
  case and is matched against \<^verbatim>\<open>LOWER(channel_name)\<close>.) The same function embeds
  Python's \<^verbatim>\<open>kw in s\<close> on strings.
\<close>

fun LIKE_contains :: "string \<Rightarrow> string \<Rightarrow> bool" where
  "LIKE_contains [] kw = (kw = [])"
| "LIKE_contains (c # cs) kw = (take (length kw) (c # cs) = kw \<or> LIKE_contains cs kw)"

text \<open>SQLite's one-argument \<^verbatim>\<open>TRIM\<close> removes spaces (and only spaces) from both ends.\<close>

definition TRIM :: "string \<Rightarrow> string" where
  "TRIM s = rev (dropWhile (\<lambda>c. c = CHR '' '') (rev (dropWhile (\<lambda>c. c = CHR '' '') s)))"

section \<open>Channel classification\<close>

text \<open>
  The \<^verbatim>\<open>CASE\<close> expression of the \<^verbatim>\<open>channel_classification\<close> CTE
  (\<^verbatim>\<open>create_star_schema\<close>), branch by branch and keyword by keyword in the source's
  order.
\<close>

definition channel_type_of :: "string \<Rightarrow> string" where
  "channel_type_of channel_name =
     (let n = LOWER channel_name in
      if LIKE_contains n ''pharma'' \<or> LIKE_contains n ''med'' \<or> LIKE_contains n ''drug'' \<or>
         LIKE_contains n ''pharmacy'' \<or> LIKE_contains n ''pill'' \<or> LIKE_contains n ''tablet''
      then ''Pharmaceutical''
      else if LIKE_contains n ''cosmetic'' \<or> LIKE_contains n ''beauty'' \<or>
         LIKE_contains n ''skin'' \<or> LIKE_contains n ''cream'' \<or> LIKE_contains n ''lotion'' \<or>
         LIKE_contains n ''makeup''
      then ''Cosmetics''
      else if LIKE_contains n ''health'' \<or> LIKE_contains n ''medical'' \<or>
         LIKE_contains n ''hospital'' \<or> LIKE_contains n ''clinic'' \<or> LIKE_contains n ''doctor''
      then ''Medical''
      else ''Other'')"




section \<open>Dates and timestamps\<close>

text \<open>
  A calendar day is its number of days since 1970-01-01; a timestamp is a day and a
  second within it, ordered lexicographically (the order on pairs of
  \<^verbatim>\<open>HOL-Library.Product_Lexorder\<close>). The database stores \<^verbatim>\<open>message_date\<close> as ISO
  text and compares it with \<^verbatim>\<open>CURRENT_TIMESTAMP\<close> as text; the model takes both in one
  format and one time zone, where that comparison is the chronological one. The same
  clock value serves for SQLite's \<^verbatim>\<open>CURRENT_TIMESTAMP\<close> and for Python's
  \<^verbatim>\<open>datetime.now()\<close>.
\<close>

type_synonym date = int
type_synonym timestamp = "int \<times> nat"

definition DATE :: "timestamp \<Rightarrow> date" where
  "DATE t = fst t"

text \<open>
  The proleptic Gregorian calendar of SQLite's \<^verbatim>\<open>strftime\<close>: year, month and day of
  a day number. Day numbers are unbounded; the year range of Python's \<^verbatim>\<open>date\<close>
  (1 to 9999) is not modelled.
\<close>

definition civil_from_days :: "date \<Rightarrow> int \<times> int \<times> int" where
  "civil_from_days z0 =
     (let z = z0 + 719468;
          era = z div 146097;
          doe = z - era * 146097;
          yoe = (doe - doe div 1460 + doe div 36524 - doe div 146096) div 365;
          doy = doe - (365 * yoe + yoe div 4 - yoe div 100);
          mp = (5 * doy + 2) div 153;
          d = doy - (153 * mp + 2) div 5 + 1;
          m = (if mp < 10 then mp + 3 else mp - 9);
          y = yoe + era * 400 + (if m \<le> 2 then 1 else 0)
      in (y, m, d))"

section \<open>SQL values, comparisons and aggregates\<close>

text \<open>A comparison with a NULL operand is NULL; \<^verbatim>\<open>WHEN c\<close> and \<^verbatim>\<open>WHERE c\<close> hold
  only when \<open>c\<close> is true.\<close>

definition sql_gt :: "'a::linorder option \<Rightarrow> 'a option \<Rightarrow> bool option" where
  "sql_gt a b = (case (a, b) of (Some x, Some y) \<Rightarrow> Some (x > y) | _ \<Rightarrow> None)"

definition sql_lt :: "'a::linorder option \<Rightarrow> 'a option \<Rightarrow> bool option" where
  "sql_lt a b = (case (a, b) of (Some x, Some y) \<Rightarrow> Some (x < y) | _ \<Rightarrow> None)"

definition is_true :: "bool option \<Rightarrow> bool" where
  "is_true c = (c = Some True)"

definition COALESCE :: "'a option \<Rightarrow> 'a \<Rightarrow> 'a option" where
  "COALESCE a d = (case a of None \<Rightarrow> Some d | Some x \<Rightarrow> Some x)"

definition NULLIF :: "int \<Rightarrow> int \<Rightarrow> int option" where
  "NULLIF a b = (if a = b then None else Some a)"

text \<open>Division: NULL when an operand is NULL or the divisor is zero.\<close>

definition sql_div :: "rat option \<Rightarrow> rat option \<Rightarrow> rat option" where
  "sql_div a b =
     (case (a, b) of (Some x, Some y) \<Rightarrow> (if y = 0 then None else Some (x / y)) | _ \<Rightarrow> None)"

text \<open>
  \<^verbatim>\<open>ROUND(x, 2)\<close>: two decimals, halves away from zero. SQLite computes on doubles;
  the model computes on exact rationals.
\<close>

definition ROUND2 :: "rat option \<Rightarrow> rat option" where
  "ROUND2 a =
     (case a of None \<Rightarrow> None
      | Some x \<Rightarrow> Some (if 0 \<le> x then of_int \<lfloor>x * 100 + 1 / 2\<rfloor> / 100
                        else - (of_int \<lfloor>- x * 100 + 1 / 2\<rfloor> / 100)))"

text \<open>Aggregates skip NULLs and are NULL on no value.\<close>

definition non_null :: "'a option list \<Rightarrow> 'a list" where
  "non_null xs = concat (map (\<lambda>x. case x of None \<Rightarrow> [] | Some v \<Rightarrow> [v]) xs)"

definition MIN_agg :: "'a::linorder option list \<Rightarrow> 'a option" where
  "MIN_agg xs = (case non_null xs of [] \<Rightarrow> None | v # vs \<Rightarrow> Some (fold min vs v))"

definition MAX_agg :: "'a::linorder option list \<Rightarrow> 'a option" where
  "MAX_agg xs = (case non_null xs of [] \<Rightarrow> None | v # vs \<Rightarrow> Some (fold max vs v))"

definition SUM_agg :: "int option list \<Rightarrow> int option" where
  "SUM_agg xs = (case non_null xs of [] \<Rightarrow> None | v # vs \<Rightarrow> Some (sum_list (v # vs)))"

definition AVG_agg :: "int option list \<Rightarrow> rat option" where
  "AVG_agg xs =
     (case non_null xs of [] \<Rightarrow> None
      | v # vs \<Rightarrow> Some (of_int (sum_list (v # vs)) / of_nat (length (v # vs))))"

definition COUNT_star :: "'a list \<Rightarrow> int" where
  "COUNT_star rows = int (length rows)"

section \<open>The raw message table and the record loader\<close>

text \<open>
  A row of \<^verbatim>\<open>raw_telegram_messages\<close>. \<^verbatim>\<open>message_id\<close> and \<^verbatim>\<open>channel_name\<close> are
  declared NOT NULL; every other column is nullable. (The surrogate \<^verbatim>\<open>id\<close> and
  \<^verbatim>\<open>created_at\<close> are read by no query and are left out; the table is the list of its
  rows in insertion order.)
\<close>

record raw_message =
  message_id :: int
  channel_name :: string
  channel_username :: "string option"
  channel_title :: "string option"
  message_date :: "timestamp option"
  message_text :: "string option"
  has_media :: "bool option"
  image_path :: "string option"
  views :: "int option"
  forwards :: "int option"
  scraped_at :: "timestamp option"

text \<open>
  A message object of an input file: each key is absent, present with JSON null, or
  present with a value. \<^verbatim>\<open>msg.get(k)\<close> is \<open>get\<close>, \<^verbatim>\<open>msg.get(k, d)\<close> is
  \<open>get_default\<close>: the default replaces an absent key, not a null.
\<close>

datatype 'a field = Absent | Null | Val 'a

fun get :: "'a field \<Rightarrow> 'a option" where
  "get Absent = None"
| "get Null = None"
| "get (Val v) = Some v"

fun get_default :: "'a field \<Rightarrow> 'a \<Rightarrow> 'a option" where
  "get_default Absent d = Some d"
| "get_default Null d = None"
| "get_default (Val v) d = Some v"

record msg =
  k_message_id :: "int field"
  k_channel_name :: "string field"
  k_channel_username :: "string field"
  k_channel_title :: "string field"
  k_message_date :: "timestamp field"
  k_message_text :: "string field"
  k_has_media :: "bool field"
  k_image_path :: "string field"
  k_views :: "int field"
  k_forwards :: "int field"
  k_scraped_at :: "timestamp field"

text \<open>An element of a batch is a message object or something else
  (\<^verbatim>\<open>not isinstance(msg, dict)\<close>); a parsed file is a list or a single value.\<close>

datatype json_entry = NonDict | Dict msg

datatype json_data = JList "json_entry list" | JSingle json_entry

text \<open>An input file: its path and its parsed content, \<open>None\<close> when \<^verbatim>\<open>open\<close> or
  \<^verbatim>\<open>json.load\<close> raises.\<close>

type_synonym json_file = "string \<times> json_data option"

datatype py_error = OverflowError | OperationalError

text \<open>Binding a Python int outside the signed 64-bit range raises \<^verbatim>\<open>OverflowError\<close>.\<close>

definition fits_int64 :: "int option \<Rightarrow> bool" where
  "fits_int64 v = (case v of None \<Rightarrow> True | Some n \<Rightarrow> - (2 ^ 63) \<le> n \<and> n < 2 ^ 63)"

definition bind_ok :: "msg \<Rightarrow> bool" where
  "bind_ok m = (fits_int64 (get (k_message_id m)) \<and> fits_int64 (get_default (k_views m) 0)
     \<and> fits_int64 (get_default (k_forwards m) 0))"

text \<open>
  \<^verbatim>\<open>INSERT OR IGNORE\<close> of the parameter tuple built from one message object: the
  statement is skipped when a NOT NULL column would be NULL or when a row with the same
  \<^verbatim>\<open>(message_id, channel_name)\<close> is in the table; otherwise the row is appended.
\<close>

definition INSERT_OR_IGNORE :: "timestamp \<Rightarrow> msg \<Rightarrow> raw_message list \<Rightarrow> raw_message list" where
  "INSERT_OR_IGNORE now m tbl =
     (case (get (k_message_id m), get_default (k_channel_name m) '''') of
        (Some mid, Some cn) \<Rightarrow>
          if list_ex (\<lambda>r. message_id r = mid \<and> channel_name r = cn) tbl then tbl
          else tbl @ [\<lparr>message_id = mid, channel_name = cn,
                 channel_username = get (k_channel_username m),
                 channel_title = get (k_channel_title m),
                 message_date = get (k_message_date m),
                 message_text = get_default (k_message_text m) '''',
                 has_media = get_default (k_has_media m) False,
                 image_path = get (k_image_path m),
                 views = get_default (k_views m) 0,
                 forwards = get_default (k_forwards m) 0,
                 scraped_at = get_default (k_scraped_at m) now\<rparr>]
      | _ \<Rightarrow> tbl)"

text \<open>
  The loop \<^verbatim>\<open>for msg in messages\<close> of \<^verbatim>\<open>load_raw_data\<close>: a non-object is skipped;
  an exception leaves the loop, and the rows inserted before it stay in the table.
\<close>

fun insert_messages ::
  "timestamp \<Rightarrow> json_entry list \<Rightarrow> raw_message list \<Rightarrow> py_error option \<times> raw_message list" where
  "insert_messages now [] tbl = (None, tbl)"
| "insert_messages now (NonDict # es) tbl = insert_messages now es tbl"
| "insert_messages now (Dict m # es) tbl =
     (if bind_ok m then insert_messages now es (INSERT_OR_IGNORE now m tbl)
      else (Some OverflowError, tbl))"

definition messages_of :: "json_data \<Rightarrow> json_entry list" where
  "messages_of data = (case data of JList es \<Rightarrow> es | JSingle e \<Rightarrow> [e])"

text \<open>The body of \<^verbatim>\<open>for json_file in json_files\<close>, with its \<^verbatim>\<open>try\<close>: the running
  total grows by \<^verbatim>\<open>len(messages)\<close> when no exception was raised.\<close>

definition load_file ::
  "timestamp \<Rightarrow> json_file \<Rightarrow> int \<times> raw_message list \<Rightarrow> int \<times> raw_message list" where
  "load_file now f acc =
     (case snd f of
        None \<Rightarrow> acc
      | Some data \<Rightarrow>
          (let messages = messages_of data in
           case insert_messages now messages (snd acc) of
             (Some e, tbl) \<Rightarrow> (fst acc, tbl)
           | (None, tbl) \<Rightarrow> (fst acc + int (length messages), tbl)))"

subsection \<open>The PostgreSQL loader\<close>

text \<open>
  \<^verbatim>\<open>load_json_to_postgres\<close> of \<^verbatim>\<open>load_to_postgres_and_run_dbt.py\<close> loads the same
  files into a table of the same columns on a PostgreSQL server. What the server
  accepts as a value of a column (integer ranges, \<^verbatim>\<open>VARCHAR\<close> lengths) is the
  parameter \<open>accepts\<close>; a NULL in a NOT NULL column and a value that is not accepted
  raise. A conflict on \<^verbatim>\<open>(message_id, channel_name)\<close> does nothing.
\<close>

definition pg_insert ::
  "(msg \<Rightarrow> bool) \<Rightarrow> timestamp \<Rightarrow> msg \<Rightarrow> raw_message list \<Rightarrow> raw_message list option" where
  "pg_insert accepts now m tbl =
     (case (get (k_message_id m), get_default (k_channel_name m) '''') of
        (Some mid, Some cn) \<Rightarrow> if accepts m then Some (INSERT_OR_IGNORE now m tbl) else None
      | _ \<Rightarrow> None)"

text \<open>\<^verbatim>\<open>execute_batch\<close>: the statements in order, up to the first that raises.\<close>

fun execute_batch ::
  "(msg \<Rightarrow> bool) \<Rightarrow> timestamp \<Rightarrow> msg list \<Rightarrow> raw_message list \<Rightarrow> raw_message list option" where
  "execute_batch accepts now [] tbl = Some tbl"
| "execute_batch accepts now (m # ms) tbl =
     (case pg_insert accepts now m tbl of
        None \<Rightarrow> None
      | Some tbl' \<Rightarrow> execute_batch accepts now ms tbl')"

text \<open>The loop that builds \<^verbatim>\<open>data_to_insert\<close>: \<^verbatim>\<open>msg.get\<close> raises on an element
  that is not an object.\<close>

fun data_to_insert :: "json_entry list \<Rightarrow> msg list option" where
  "data_to_insert [] = Some []"
| "data_to_insert (NonDict # es) = None"
| "data_to_insert (Dict m # es) = map_option (\<lambda>ms. m # ms) (data_to_insert es)"

text \<open>
  The body of the loop over the files. Iterating over a parsed value that is not a list
  raises or runs over nothing of length 0, so only a list can change the table or the
  total. An exception is followed by \<^verbatim>\<open>conn.rollback()\<close>: the table is as it was
  after the previous file's commit.
\<close>

definition pg_load_file ::
  "(msg \<Rightarrow> bool) \<Rightarrow> timestamp \<Rightarrow> json_file \<Rightarrow> int \<times> raw_message list \<Rightarrow> int \<times> raw_message list" where
  "pg_load_file accepts now f acc =
     (case snd f of
        None \<Rightarrow> acc
      | Some (JSingle e) \<Rightarrow> acc
      | Some (JList messages) \<Rightarrow>
          (case data_to_insert messages of
             None \<Rightarrow> acc
           | Some rows \<Rightarrow>
               (case execute_batch accepts now rows (snd acc) of
                  None \<Rightarrow> acc
                | Some tbl \<Rightarrow> (fst acc + int (length messages), tbl))))"

definition load_json_to_postgres ::
  "(msg \<Rightarrow> bool) \<Rightarrow> timestamp \<Rightarrow> json_file list \<Rightarrow> raw_message list \<Rightarrow> int \<times> raw_message list" where
  "load_json_to_postgres accepts now json_files tbl =
     (if json_files = [] then (0, tbl)
      else fold (pg_load_file accepts now) json_files (0, tbl))"

section \<open>The warehouse\<close>

text \<open>The staging table: the columns of the raw table and the derived ones.\<close>

record stg_row = raw_message +
  cleaned_message_text :: "string option"
  message_length :: "int option"
  has_image :: bool
  is_empty_message :: bool
  is_future_date :: bool
  has_negative_views :: bool
  data_quality_status :: string

record dim_date =
  date_key :: int
  full_date :: date
  year :: int
  quarter :: int
  month :: int
  day_of_month :: int
  day_of_week :: int
  is_weekend :: bool

record dim_channel =
  channel_key :: int
  dc_channel_name :: string
  dc_channel_username :: "string option"
  dc_channel_title :: "string option"
  channel_type :: string
  first_post_date :: "timestamp option"
  last_post_date :: "timestamp option"
  total_posts :: int
  avg_views :: "rat option"
  avg_forwards :: "rat option"
  posts_with_media :: "int option"
  posts_with_image :: "int option"
  media_percentage :: "rat option"
  image_percentage :: "rat option"
  activity_status :: string

record fct_message =
  f_message_id :: int
  f_channel_key :: int
  f_date_key :: int
  f_message_text :: "string option"
  f_message_length :: "int option"
  view_count :: "int option"
  forward_count :: "int option"
  f_has_image :: bool
  f_data_quality_status :: string

text \<open>The database: each table is \<open>None\<close> until it is created.\<close>

record warehouse =
  raw_telegram_messages :: "raw_message list option"
  stg_telegram_messages :: "stg_row list option"
  dim_dates :: "dim_date list option"
  dim_channels :: "dim_channel list option"
  fct_messages :: "fct_message list option"

definition empty_warehouse :: warehouse where
  "empty_warehouse = \<lparr>raw_telegram_messages = None, stg_telegram_messages = None,
     dim_dates = None, dim_channels = None, fct_messages = None\<rparr>"

text \<open>
  \<^verbatim>\<open>load_raw_data\<close>: creates the raw table if it is not there, drops the manifest
  files from the file list, loads each file and returns \<^verbatim>\<open>total_messages\<close>.
\<close>

definition load_raw_data :: "timestamp \<Rightarrow> json_file list \<Rightarrow> warehouse \<Rightarrow> int \<times> warehouse" where
  "load_raw_data now files w =
     (let tbl = (case raw_telegram_messages w of None \<Rightarrow> [] | Some t \<Rightarrow> t);
          json_files = filter (\<lambda>f. \<not> LIKE_contains (fst f) ''_manifest.json'') files;
          acc = fold (load_file now) json_files (0, tbl)
      in (fst acc, w\<lparr>raw_telegram_messages := Some (snd acc)\<rparr>))"

section \<open>The staging table\<close>

text \<open>The CTE \<^verbatim>\<open>raw_data\<close>: rows with a message date, counts coalesced to 0.\<close>

definition raw_data :: "raw_message list \<Rightarrow> raw_message list" where
  "raw_data tbl =
     map (\<lambda>r. r\<lparr>views := COALESCE (views r) 0, forwards := COALESCE (forwards r) 0\<rparr>)
       (filter (\<lambda>r. message_date r \<noteq> None) tbl)"

text \<open>
  The CTE \<^verbatim>\<open>cleaned_data\<close> and the \<^verbatim>\<open>data_quality_status\<close> of the final
  \<^verbatim>\<open>SELECT\<close>, for one row of \<^verbatim>\<open>raw_data\<close>.
\<close>

definition cleaned_data :: "timestamp \<Rightarrow> raw_message \<Rightarrow> stg_row" where
  "cleaned_data now r =
     (let empty = (case message_text r of None \<Rightarrow> True | Some t \<Rightarrow> TRIM t = '''');
          future = is_true (sql_gt (message_date r) (Some now));
          negative = is_true (sql_lt (views r) (Some 0))
      in \<lparr>message_id = message_id r, channel_name = channel_name r,
           channel_username = channel_username r, channel_title = channel_title r,
           message_date = message_date r, message_text = message_text r,
           has_media = has_media r, image_path = image_path r,
           views = views r, forwards = forwards r, scraped_at = scraped_at r,
           cleaned_message_text = map_option TRIM (message_text r),
           message_length = map_option (\<lambda>t. int (length (TRIM t))) (message_text r),
           has_image = (image_path r \<noteq> None),
           is_empty_message = empty,
           is_future_date = future,
           has_negative_views = negative,
           data_quality_status =
             (if empty \<or> future \<or> negative then ''needs_review'' else ''valid'')\<rparr>)"

text \<open>The \<^verbatim>\<open>SELECT\<close> behind \<^verbatim>\<open>stg_telegram_messages\<close>, with its
  \<^verbatim>\<open>WHERE NOT is_future_date\<close>.\<close>

definition stg_select :: "timestamp \<Rightarrow> raw_message list \<Rightarrow> stg_row list" where
  "stg_select now tbl =
     filter (\<lambda>s. \<not> is_future_date s) (map (cleaned_data now) (raw_data tbl))"

section \<open>The date dimension\<close>

text \<open>The query for \<^verbatim>\<open>MIN(DATE(message_date))\<close> and \<^verbatim>\<open>MAX(DATE(message_date))\<close>
  over the staging table.\<close>

definition stg_date_range :: "stg_row list \<Rightarrow> date option \<times> date option" where
  "stg_date_range stg =
     (let ds = map (\<lambda>s. map_option DATE (message_date s))
                 (filter (\<lambda>s. message_date s \<noteq> None) stg)
      in (MIN_agg ds, MAX_agg ds))"

text \<open>The Python branch on the fetched row: the observed range extended by 30 days,
  or the default range around today.\<close>

definition dim_date_bounds :: "timestamp \<Rightarrow> date option \<times> date option \<Rightarrow> date \<times> date" where
  "dim_date_bounds now result =
     (case result of
        (Some min_date, Some max_date) \<Rightarrow> (min_date - 30, max_date + 30)
      | _ \<Rightarrow> (DATE now - 365, DATE now + 365))"

text \<open>The recursive CTE \<^verbatim>\<open>date_range\<close>: the first day, then one more day while the
  last one is before \<^verbatim>\<open>max_date\<close>.\<close>

function date_range :: "date \<Rightarrow> date \<Rightarrow> date list" where
  "date_range d max_date = d # (if d < max_date then date_range (d + 1) max_date else [])"
  by pat_completeness auto
termination
  by (relation "measure (\<lambda>(d, max_date). nat (max_date - d))") auto

declare date_range.simps [simp del]

text \<open>One row of \<^verbatim>\<open>dim_dates\<close>, computed from the day alone. The columns
  \<^verbatim>\<open>month_name\<close>, \<^verbatim>\<open>week_of_year\<close> and \<^verbatim>\<open>day_name\<close>, which no statement of the
  transformation reads, are left out.\<close>

definition dim_date_row :: "date \<Rightarrow> dim_date" where
  "dim_date_row d =
     (case civil_from_days d of (y, m, dd) \<Rightarrow>
        \<lparr>date_key = y * 10000 + m * 100 + dd, full_date = d, year = y,
         quarter = (m - 1) div 3 + 1, month = m, day_of_month = dd,
         day_of_week = (d + 4) mod 7,
         is_weekend = ((d + 4) mod 7 = 0 \<or> (d + 4) mod 7 = 6)\<rparr>)"

definition dim_dates_select :: "date \<times> date \<Rightarrow> dim_date list" where
  "dim_dates_select bounds = map dim_date_row (date_range (fst bounds) (snd bounds))"

section \<open>The channel dimension\<close>

definition channel_group_key :: "stg_row \<Rightarrow> string \<times> string option \<times> string option" where
  "channel_group_key s = (channel_name s, channel_username s, channel_title s)"

text \<open>The distinct values of a list, each at its first occurrence.\<close>

definition distinct_first :: "'a list \<Rightarrow> 'a list" where
  "distinct_first xs = rev (remdups (rev xs))"

text \<open>
  \<^verbatim>\<open>GROUP BY channel_name, channel_username, channel_title\<close> over the valid staging
  rows: one group per distinct triple (NULLs group together), with its rows. SQL leaves
  the order of the groups open; the model lists them by first occurrence.
\<close>

definition channel_groups ::
  "stg_row list \<Rightarrow> ((string \<times> string option \<times> string option) \<times> stg_row list) list" where
  "channel_groups stg =
     (let valid_rows = filter (\<lambda>s. data_quality_status s = ''valid'') stg
      in map (\<lambda>k. (k, filter (\<lambda>s. channel_group_key s = k) valid_rows))
           (distinct_first (map channel_group_key valid_rows)))"

text \<open>\<^verbatim>\<open>ROUND(part * 100.0 / NULLIF(total_posts, 0), 2)\<close>.\<close>

definition percentage :: "int option \<Rightarrow> int \<Rightarrow> rat option" where
  "percentage part n_posts =
     ROUND2 (sql_div (map_option (\<lambda>p. of_int p * 100) part) (map_option of_int (NULLIF n_posts 0)))"

text \<open>\<^verbatim>\<open>last_post_date >= DATE('now', '-N days')\<close>: the date text compares as the
  start of its day.\<close>

definition posted_since :: "timestamp option \<Rightarrow> date \<Rightarrow> bool" where
  "posted_since last_post d = (case last_post of None \<Rightarrow> False | Some t \<Rightarrow> t \<ge> (d, 0))"

text \<open>One row of \<^verbatim>\<open>dim_channels\<close>: the aggregates of \<^verbatim>\<open>channel_stats\<close>, the
  classification, the percentages and the activity status of a group, under a given key.\<close>

definition dim_channel_of ::
  "timestamp \<Rightarrow> int \<Rightarrow> (string \<times> string option \<times> string option) \<times> stg_row list \<Rightarrow> dim_channel" where
  "dim_channel_of now key g =
     (let rows = snd g;
          n_posts = COUNT_star rows;
          with_media = SUM_agg (map (\<lambda>s. Some (if has_media s = Some True then 1 else 0)) rows);
          with_image = SUM_agg (map (\<lambda>s. Some (if has_image s then 1 else 0)) rows);
          last_post = MAX_agg (map message_date rows)
      in \<lparr>channel_key = key,
           dc_channel_name = fst (fst g),
           dc_channel_username = fst (snd (fst g)),
           dc_channel_title = snd (snd (fst g)),
           channel_type = channel_type_of (fst (fst g)),
           first_post_date = MIN_agg (map message_date rows),
           last_post_date = last_post,
           total_posts = n_posts,
           avg_views = ROUND2 (AVG_agg (map views rows)),
           avg_forwards = ROUND2 (AVG_agg (map forwards rows)),
           posts_with_media = with_media,
           posts_with_image = with_image,
           media_percentage = percentage with_media n_posts,
           image_percentage = percentage with_image n_posts,
           activity_status =
             (if posted_since last_post (DATE now - 7) then ''active''
              else if posted_since last_post (DATE now - 30) then ''moderate''
              else ''inactive'')\<rparr>)"

text \<open>
  The \<^verbatim>\<open>SELECT\<close> behind \<^verbatim>\<open>dim_channels\<close>:
  \<^verbatim>\<open>ROW_NUMBER() OVER (ORDER BY total_posts DESC)\<close> numbers the groups from 1 in
  descending order of their row count (a stable sort: SQL leaves the order among equal
  counts open).
\<close>

definition dim_channels_select :: "timestamp \<Rightarrow> stg_row list \<Rightarrow> dim_channel list" where
  "dim_channels_select now stg =
     map (\<lambda>(i, g). dim_channel_of now (int i + 1) g)
       (enumerate 0 (sort_key (\<lambda>g. - COUNT_star (snd g)) (channel_groups stg)))"

section \<open>The fact table\<close>

text \<open>\<^verbatim>\<open>LEFT JOIN t ON cond\<close> for one left row: the matching right rows, or one NULL
  row when there is none.\<close>

definition LEFT_JOIN :: "('b \<Rightarrow> bool) \<Rightarrow> 'b list \<Rightarrow> 'b option list" where
  "LEFT_JOIN on_cond tbl = (case filter on_cond tbl of [] \<Rightarrow> [None] | ys \<Rightarrow> map Some ys)"

text \<open>
  The \<^verbatim>\<open>SELECT\<close> behind \<^verbatim>\<open>fct_messages\<close>: the staging table joined to
  \<^verbatim>\<open>dim_channels\<close> on \<^verbatim>\<open>m.channel_name = c.channel_name\<close> and to \<^verbatim>\<open>dim_dates\<close> on
  \<^verbatim>\<open>DATE(m.message_date) = d.full_date\<close>, filtered by the \<^verbatim>\<open>WHERE\<close> clause.
\<close>

definition fct_select :: "stg_row list \<Rightarrow> dim_channel list \<Rightarrow> dim_date list \<Rightarrow> fct_message list" where
  "fct_select stg dc dd =
     concat (map (\<lambda>m.
       concat (map (\<lambda>c.
         concat (map (\<lambda>d.
           (case (c, d) of
              (Some c', Some d') \<Rightarrow>
                if data_quality_status m = ''valid'' then
                  [\<lparr>f_message_id = message_id m, f_channel_key = channel_key c',
                    f_date_key = date_key d',
                    f_message_text = cleaned_message_text m,
                    f_message_length = message_length m,
                    view_count = views m, forward_count = forwards m,
                    f_has_image = has_image m,
                    f_data_quality_status = data_quality_status m\<rparr>]
                else []
            | _ \<Rightarrow> []))
           (LEFT_JOIN (\<lambda>d. map_option DATE (message_date m) = Some (full_date d)) dd)))
         (LEFT_JOIN (\<lambda>c. channel_name m = dc_channel_name c) dc)))
       stg)"

section \<open>Building the star schema\<close>

text \<open>
  \<^verbatim>\<open>create_star_schema\<close>: four \<^verbatim>\<open>CREATE TABLE IF NOT EXISTS ... AS SELECT\<close>
  statements, each a no-op when its table exists, with the date-range query between the
  first two. The first statement raises when neither the staging table nor the raw table
  exists; nothing has been created then.
\<close>

definition create_star_schema :: "timestamp \<Rightarrow> warehouse \<Rightarrow> py_error + warehouse" where
  "create_star_schema now w =
     (case (case stg_telegram_messages w of
              Some stg \<Rightarrow> Inr stg
            | None \<Rightarrow> (case raw_telegram_messages w of
                         None \<Rightarrow> Inl OperationalError
                       | Some tbl \<Rightarrow> Inr (stg_select now tbl))) of
        Inl e \<Rightarrow> Inl e
      | Inr stg \<Rightarrow>
          (let bounds = dim_date_bounds now (stg_date_range stg);
               dd = (case dim_dates w of Some t \<Rightarrow> t | None \<Rightarrow> dim_dates_select bounds);
               dc = (case dim_channels w of Some t \<Rightarrow> t | None \<Rightarrow> dim_channels_select now stg);
               fct = (case fct_messages w of Some t \<Rightarrow> t | None \<Rightarrow> fct_select stg dc dd)
           in Inr (w\<lparr>stg_telegram_messages := Some stg, dim_dates := Some dd,
                     dim_channels := Some dc, fct_messages := Some fct\<rparr>)))"

section \<open>The data quality tests\<close>

text \<open>A query on a table that does not exist raises.\<close>

definition from_table :: "'a list option \<Rightarrow> py_error + 'a list" where
  "from_table t = (case t of None \<Rightarrow> Inl OperationalError | Some rows \<Rightarrow> Inr rows)"

definition no_future_dates :: "timestamp \<Rightarrow> warehouse \<Rightarrow> py_error + int" where
  "no_future_dates now w =
     (case from_table (stg_telegram_messages w) of
        Inl e \<Rightarrow> Inl e
      | Inr stg \<Rightarrow> Inr (COUNT_star (filter (\<lambda>s. is_true (sql_gt (message_date s) (Some now))
                           \<and> data_quality_status s = ''valid'') stg)))"

definition no_negative_views :: "timestamp \<Rightarrow> warehouse \<Rightarrow> py_error + int" where
  "no_negative_views now w =
     (case from_table (stg_telegram_messages w) of
        Inl e \<Rightarrow> Inl e
      | Inr stg \<Rightarrow> Inr (COUNT_star (filter (\<lambda>s. is_true (sql_lt (views s) (Some 0))
                           \<and> data_quality_status s = ''valid'') stg)))"

definition all_channels_have_type :: "timestamp \<Rightarrow> warehouse \<Rightarrow> py_error + int" where
  "all_channels_have_type now w =
     (case from_table (dim_channels w) of
        Inl e \<Rightarrow> Inl e
      | Inr dc \<Rightarrow> Inr (COUNT_star (filter (\<lambda>c. channel_type c = '''') dc)))"

definition fk_integrity_channels :: "timestamp \<Rightarrow> warehouse \<Rightarrow> py_error + int" where
  "fk_integrity_channels now w =
     (case from_table (fct_messages w) of
        Inl e \<Rightarrow> Inl e
      | Inr fct \<Rightarrow>
          (case from_table (dim_channels w) of
             Inl e \<Rightarrow> Inl e
           | Inr dc \<Rightarrow> Inr (COUNT_star (filter (\<lambda>c. c = None)
               (concat (map (\<lambda>f. LEFT_JOIN (\<lambda>c. f_channel_key f = channel_key c) dc) fct))))))"

definition fk_integrity_dates :: "timestamp \<Rightarrow> warehouse \<Rightarrow> py_error + int" where
  "fk_integrity_dates now w =
     (case from_table (fct_messages w) of
        Inl e \<Rightarrow> Inl e
      | Inr fct \<Rightarrow>
          (case from_table (dim_dates w) of
             Inl e \<Rightarrow> Inl e
           | Inr dd \<Rightarrow> Inr (COUNT_star (filter (\<lambda>d. d = None)
               (concat (map (\<lambda>f. LEFT_JOIN (\<lambda>d. f_date_key f = date_key d) dd) fct))))))"

type_synonym quality_test = "string \<times> (timestamp \<Rightarrow> warehouse \<Rightarrow> py_error + int) \<times> bool"

text \<open>The list \<^verbatim>\<open>tests\<close> of \<^verbatim>\<open>run_data_tests\<close>: name, query, \<^verbatim>\<open>should_be_zero\<close>.\<close>

definition tests :: "quality_test list" where
  "tests =
     [(''No future dates'', no_future_dates, True),
      (''No negative views'', no_negative_views, True),
      (''All channels have type'', all_channels_have_type, True),
      (''Foreign key integrity (channels)'', fk_integrity_channels, True),
      (''Foreign key integrity (dates)'', fk_integrity_dates, True)]"

record test_result =
  test :: string
  passed :: bool
  result :: int

text \<open>
  The loop of \<^verbatim>\<open>run_data_tests\<close> over a list of tests, on the pair of
  \<^verbatim>\<open>all_passed\<close> and \<^verbatim>\<open>results\<close>: the \<^verbatim>\<open>try\<close> body appends a result, the
  \<^verbatim>\<open>except\<close> branch only clears \<^verbatim>\<open>all_passed\<close>.
\<close>

fun run_tests_loop ::
  "timestamp \<Rightarrow> warehouse \<Rightarrow> quality_test list \<Rightarrow> bool \<times> test_result list \<Rightarrow> bool \<times> test_result list" where
  "run_tests_loop now w [] acc = acc"
| "run_tests_loop now w ((test_name, query, should_be_zero) # ts) (all_passed, results) =
     (case query now w of
        Inl e \<Rightarrow> run_tests_loop now w ts (False, results)
      | Inr res \<Rightarrow>
          (let p = (if should_be_zero then res = 0 else res > 0)
           in run_tests_loop now w ts
                (if \<not> p then False else all_passed,
                 results @ [\<lparr>test = test_name, passed = p, result = res\<rparr>])))"

text \<open>\<^verbatim>\<open>run_data_tests\<close> returns \<^verbatim>\<open>all_passed\<close> and \<^verbatim>\<open>results\<close>; the same
  \<^verbatim>\<open>results\<close> go to \<^verbatim>\<open>save_test_results\<close>.\<close>

definition run_data_tests :: "timestamp \<Rightarrow> warehouse \<Rightarrow> bool \<times> test_result list" where
  "run_data_tests now w = run_tests_loop now w tests (True, [])"

text \<open>The rows \<^verbatim>\<open>save_test_results\<close> writes to the report (after the header), without
  the time stamp column.\<close>

definition save_test_results :: "test_result list \<Rightarrow> (string \<times> string \<times> int) list" where
  "save_test_results results =
     map (\<lambda>r. (test r, if passed r then ''PASS'' else ''FAIL'', result r)) results"

section \<open>Readers and sample data\<close>

text \<open>The days of the date dimension and the rows of a table after a run, for stating
  results on the outcome of \<^const>\<open>create_star_schema\<close>.\<close>

definition full_dates_of :: "py_error + warehouse \<Rightarrow> date list option" where
  "full_dates_of r =
     (case r of Inl e \<Rightarrow> None | Inr w \<Rightarrow> map_option (map full_date) (dim_dates w))"

definition raw_rows :: "warehouse \<Rightarrow> raw_message list" where
  "raw_rows w = (case raw_telegram_messages w of None \<Rightarrow> [] | Some t \<Rightarrow> t)"

text \<open>A database whose raw table exists and is empty.\<close>

definition w_empty_raw :: warehouse where
  "w_empty_raw = empty_warehouse\<lparr>raw_telegram_messages := Some []\<rparr>"

text \<open>The warehouse a run of \<^const>\<open>create_star_schema\<close> leaves (the empty one when
  it raised), and the days of the staging rows after a run.\<close>

definition built :: "py_error + warehouse \<Rightarrow> warehouse" where
  "built r = (case r of Inl e \<Rightarrow> empty_warehouse | Inr w \<Rightarrow> w)"

definition fct_keys_of :: "py_error + warehouse \<Rightarrow> (int \<times> int \<times> int) list option" where
  "fct_keys_of r =
     (case r of Inl e \<Rightarrow> None
      | Inr w \<Rightarrow> map_option (map (\<lambda>f. (f_message_id f, f_channel_key f, f_date_key f)))
                 (fct_messages w))"

definition stg_ids_of :: "py_error + warehouse \<Rightarrow> (int \<times> string) list option" where
  "stg_ids_of r =
     (case r of Inl e \<Rightarrow> None
      | Inr w \<Rightarrow> map_option (map (\<lambda>s. (message_id s, data_quality_status s)))
                 (stg_telegram_messages w))"

definition stg_dates_of :: "py_error + warehouse \<Rightarrow> date option list option" where
  "stg_dates_of r =
     (case r of Inl e \<Rightarrow> None
      | Inr w \<Rightarrow> map_option (map (\<lambda>s. map_option DATE (message_date s))) (stg_telegram_messages w))"

text \<open>The loader's view of a file: every message object of it binds, so no exception
  leaves the loop; and the number of entries it holds.\<close>

definition entry_ok :: "json_entry \<Rightarrow> bool" where
  "entry_ok e = (case e of NonDict \<Rightarrow> True | Dict m \<Rightarrow> bind_ok m)"

definition loads_ok :: "json_file \<Rightarrow> bool" where
  "loads_ok f = (case snd f of None \<Rightarrow> False | Some data \<Rightarrow> list_all entry_ok (messages_of data))"

definition seen :: "json_file \<Rightarrow> int" where
  "seen f = (case snd f of None \<Rightarrow> 0 | Some data \<Rightarrow> int (length (messages_of data)))"

text \<open>The same for the PostgreSQL loader: the file is a list of message objects, each
  with its two key columns and accepted by the server.\<close>

definition pg_entry_ok :: "(msg \<Rightarrow> bool) \<Rightarrow> json_entry \<Rightarrow> bool" where
  "pg_entry_ok accepts e =
     (case e of NonDict \<Rightarrow> False
      | Dict m \<Rightarrow> get (k_message_id m) \<noteq> None \<and> get_default (k_channel_name m) '''' \<noteq> None
                  \<and> accepts m)"

definition pg_loads_ok :: "(msg \<Rightarrow> bool) \<Rightarrow> json_file \<Rightarrow> bool" where
  "pg_loads_ok accepts f =
     (case snd f of Some (JList messages) \<Rightarrow> list_all (pg_entry_ok accepts) messages | _ \<Rightarrow> False)"

text \<open>A test's verdict, and what one test contributes to \<^verbatim>\<open>all_passed\<close> and to
  \<^verbatim>\<open>results\<close>.\<close>

definition verdict :: "bool \<Rightarrow> int \<Rightarrow> bool" where
  "verdict should_be_zero res = (if should_be_zero then res = 0 else res > 0)"

definition test_ok :: "timestamp \<Rightarrow> warehouse \<Rightarrow> quality_test \<Rightarrow> bool" where
  "test_ok now w t =
     (case fst (snd t) now w of Inl e \<Rightarrow> False | Inr res \<Rightarrow> verdict (snd (snd t)) res)"

definition reported :: "timestamp \<Rightarrow> warehouse \<Rightarrow> quality_test \<Rightarrow> test_result list" where
  "reported now w t =
     (case fst (snd t) now w of
        Inl e \<Rightarrow> []
      | Inr res \<Rightarrow> [\<lparr>test = fst t, passed = verdict (snd (snd t)) res, result = res\<rparr>])"

text \<open>Sample messages of one channel \<open>x\<close>: posted on day 19000; the same channel
  under a new title; posted on day 19100; with a JSON null as text; posted on day
  19012.\<close>

definition msg_a :: msg where
  "msg_a = \<lparr>k_message_id = Val 1, k_channel_name = Val ''x'', k_channel_username = Val ''@x'',
     k_channel_title = Val ''Old title'', k_message_date = Val (19000, 3600),
     k_message_text = Val ''hello'', k_has_media = Val False, k_image_path = Null,
     k_views = Val 5, k_forwards = Val 0, k_scraped_at = Val (19005, 0)\<rparr>"

text \<open>The raw row of \<open>msg_a\<close>, and one dated two days after a run on day 19010.\<close>

definition raw_a :: raw_message where
  "raw_a = \<lparr>message_id = 1, channel_name = ''x'', channel_username = Some ''@x'',
     channel_title = Some ''Old title'', message_date = Some (19000, 3600),
     message_text = Some ''hello'', has_media = Some False, image_path = None,
     views = Some 5, forwards = Some 0, scraped_at = Some (19005, 0)\<rparr>"


definition msg_b :: msg where
  "msg_b = msg_a\<lparr>k_message_id := Val 2, k_channel_title := Val ''New title''\<rparr>"

definition msg_late :: msg where
  "msg_late = msg_a\<lparr>k_message_id := Val 3, k_message_date := Val (19100, 0)\<rparr>"

definition msg_null_text :: msg where
  "msg_null_text = msg_a\<lparr>k_message_id := Val 4, k_message_text := Null\<rparr>"




text \<open>Input files: \<open>msg_a\<close> alone; \<open>msg_a\<close> and the later \<open>msg_late\<close>; a later
  scrape with \<open>msg_b\<close>, the channel under its new title; \<open>msg_a\<close> twice; \<open>msg_a\<close>
  twice and an element that is not an object.\<close>

definition file_a :: json_file where
  "file_a = (''data/raw/telegram_messages/2022-01-08/x.json'', Some (JList [Dict msg_a]))"

definition file_a_late :: json_file where
  "file_a_late =
     (''data/raw/telegram_messages/2022-04-18/x.json'', Some (JList [Dict msg_a, Dict msg_late]))"

definition file_b :: json_file where
  "file_b = (''data/raw/telegram_messages/2022-01-09/x.json'', Some (JList [Dict msg_b]))"

definition file_dup2 :: json_file where
  "file_dup2 =
     (''data/raw/telegram_messages/2022-01-08/x.json'', Some (JList [Dict msg_a, Dict msg_a]))"

definition file_dup :: json_file where
  "file_dup =
     (''data/raw/telegram_messages/2022-01-08/x.json'',
      Some (JList [Dict msg_a, Dict msg_a, NonDict]))"

text \<open>
  A first pipeline run on day 19010 over \<open>file_a\<close>: the database after loading and
  after building the star schema. Then, on day 19200, the database after loading
  \<open>file_a_late\<close> into it. \<open>w_staged_only\<close> is the first database after the first
  statement of \<^verbatim>\<open>create_star_schema\<close> alone: it has the staging table and no other.
\<close>

definition w_loaded1 :: warehouse where
  "w_loaded1 = snd (load_raw_data (19010, 0) [file_a] empty_warehouse)"

definition w_run1 :: warehouse where
  "w_run1 = built (create_star_schema (19010, 0) w_loaded1)"

definition w_loaded2 :: warehouse where
  "w_loaded2 = snd (load_raw_data (19200, 0) [file_a_late] w_run1)"

definition w_staged_only :: warehouse where
  "w_staged_only =
     w_loaded1\<lparr>stg_telegram_messages := Some (stg_select (19010, 0) (raw_rows w_loaded1))\<rparr>"


definition file_null_text :: json_file where
  "file_null_text =
     (''data/raw/telegram_messages/2022-01-08/x.json'', Some (JList [Dict msg_null_text]))"




text \<open>The channel rows a run on day 19010 builds from \<open>file_a\<close> and from
  \<open>file_media\<close>.\<close>

definition chan_x :: dim_channel where
  "chan_x = \<lparr>channel_key = 1, dc_channel_name = ''x'', dc_channel_username = Some ''@x'',
     dc_channel_title = Some ''Old title'', channel_type = ''Other'',
     first_post_date = Some (19000, 3600), last_post_date = Some (19000, 3600),
     total_posts = 1, avg_views = Some 5, avg_forwards = Some 0,
     posts_with_media = Some 0, posts_with_image = Some 0,
     media_percentage = Some 0, image_percentage = Some 0, activity_status = ''moderate''\<rparr>"


text \<open>The database after loading the two scrapes between which the channel changed
  its title.\<close>

definition w_two_titles :: warehouse where
  "w_two_titles = snd (load_raw_data (19010, 0) [file_a, file_b] empty_warehouse)"

section \<open>Properties\<close>

subsection \<open>Channel classification\<close>






subsection \<open>The date dimension\<close>

lemma date_range_upto: "lo \<le> hi \<Longrightarrow> date_range lo hi = [lo..hi]"
proof (induction lo hi rule: date_range.induct)
  case (1 d max_date)
  show ?case
  proof (cases "d < max_date")
    case True
    then have "date_range (d + 1) max_date = [d + 1..max_date]"
      using "1.IH" by simp
    moreover have "[d..max_date] = d # [d + 1..max_date]"
      using "1.prems" by (simp add: upto_rec1)
    ultimately show ?thesis
      using True by (subst date_range.simps) simp
  next
    case False
    with "1.prems" have "d = max_date" by simp
    then show ?thesis
      by (subst date_range.simps) simp
  qed
qed

lemma full_date_dim_date_row: "full_date (dim_date_row d) = d"
  by (simp add: dim_date_row_def split: prod.splits)

lemma full_dates_select: "map full_date (dim_dates_select b) = date_range (fst b) (snd b)"
  by (simp add: dim_dates_select_def comp_def full_date_dim_date_row)

lemma stg_date_range_Nil: "stg_date_range [] = (None, None)"
  by (simp add: stg_date_range_def MIN_agg_def MAX_agg_def non_null_def)

text \<open>A run on a database that has the raw table and no staging table.\<close>

lemma create_star_schema_fresh:
  assumes "raw_telegram_messages w = Some tbl" and "stg_telegram_messages w = None"
  shows "create_star_schema now w =
     Inr (w\<lparr>stg_telegram_messages := Some (stg_select now tbl),
           dim_dates := Some (case dim_dates w of Some t \<Rightarrow> t
              | None \<Rightarrow> dim_dates_select (dim_date_bounds now (stg_date_range (stg_select now tbl)))),
           dim_channels := Some (case dim_channels w of Some t \<Rightarrow> t
              | None \<Rightarrow> dim_channels_select now (stg_select now tbl)),
           fct_messages := Some (case fct_messages w of Some t \<Rightarrow> t
              | None \<Rightarrow> fct_select (stg_select now tbl)
                  (case dim_channels w of Some t \<Rightarrow> t
                    | None \<Rightarrow> dim_channels_select now (stg_select now tbl))
                  (case dim_dates w of Some t \<Rightarrow> t
                    | None \<Rightarrow> dim_dates_select
                        (dim_date_bounds now (stg_date_range (stg_select now tbl)))))\<rparr>)"
  using assms by (simp add: create_star_schema_def Let_def)

lemma w_empty_raw_tables:
  "raw_telegram_messages w_empty_raw = Some []" "stg_telegram_messages w_empty_raw = None"
  "dim_dates w_empty_raw = None"
  by (simp_all add: w_empty_raw_def empty_warehouse_def)

lemma stg_select_Nil: "stg_select now [] = []"
  by (simp add: stg_select_def raw_data_def)

text \<open>
  C2, as the code has it. When the first run finds no staging row (the raw table holds
  no row with a date that is not in the future), the date dimension is the closed
  interval from 365 days before today to 365 days after: the 30 days of padding are
  added in the other branch only.
\<close>

theorem default_window_365:
  assumes "raw_telegram_messages w = Some tbl" and "stg_telegram_messages w = None"
    and "dim_dates w = None" and "stg_select now tbl = []"
  shows "\<exists>w'. create_star_schema now w = Inr w'
     \<and> map_option (map full_date) (dim_dates w') = Some [DATE now - 365..DATE now + 365]"
proof -
  have "dim_date_bounds now (stg_date_range []) = (DATE now - 365, DATE now + 365)"
    by (simp add: stg_date_range_Nil dim_date_bounds_def)
  then show ?thesis
    using assms
    by (simp add: create_star_schema_fresh full_dates_select date_range_upto)
qed

theorem default_window_365_witness:
  "raw_telegram_messages w_empty_raw = Some [] \<and> stg_telegram_messages w_empty_raw = None
   \<and> dim_dates w_empty_raw = None \<and> stg_select (19000, 0) [] = []
   \<and> (\<exists>w'. create_star_schema (19000, 0) w_empty_raw = Inr w'
     \<and> map_option (map full_date) (dim_dates w')
         = Some [DATE (19000, 0) - 365..DATE (19000, 0) + 365])"
proof -
  note h = w_empty_raw_tables stg_select_Nil [of "(19000, 0)"]
  from default_window_365 [OF h] h show ?thesis by blast
qed

text \<open>
  C2, as the specification has it, fails: on the empty raw table with today = day 19000
  the dimension runs from day 18635 to day 19365 (today - 365 to today + 365), not
  from day 18605 to day 19395 (today - 395 to today + 395).
\<close>

theorem default_window_not_395:
  "full_dates_of (create_star_schema (19000, 0) w_empty_raw) = Some [18635..19365]
   \<and> full_dates_of (create_star_schema (19000, 0) w_empty_raw) \<noteq> Some [18605..19395]"
proof -
  note h = w_empty_raw_tables stg_select_Nil [of "(19000, 0)"]
  have b: "dim_date_bounds (19000, 0) (stg_date_range []) = (18635, 19365)"
    by (simp add: stg_date_range_Nil dim_date_bounds_def DATE_def)
  have a: "full_dates_of (create_star_schema (19000, 0) w_empty_raw) = Some [18635..19365]"
    using h b
    by (simp add: create_star_schema_fresh full_dates_of_def full_dates_select date_range_upto)
  have "length [18635..19365::int] \<noteq> length [18605..19395::int]"
    by (simp only: length_upto)
  then have "[18635..19365] \<noteq> [18605..19395::int]"
    by metis
  with a show ?thesis by simp
qed

subsection \<open>Running the schema build again\<close>

lemma create_star_schema_tables:
  assumes "create_star_schema now w = Inr w'"
  shows "stg_telegram_messages w' \<noteq> None \<and> dim_dates w' \<noteq> None
     \<and> dim_channels w' \<noteq> None \<and> fct_messages w' \<noteq> None"
  using assms
  by (auto simp: create_star_schema_def Let_def split: option.splits sum.splits)

lemma create_star_schema_built:
  assumes "stg_telegram_messages w = Some stg" and "dim_dates w = Some dd"
    and "dim_channels w = Some dc" and "fct_messages w = Some fct"
  shows "create_star_schema now w = Inr w"
  using assms by (simp add: create_star_schema_def Let_def)

lemma load_raw_data_tables:
  "stg_telegram_messages (snd (load_raw_data now files w)) = stg_telegram_messages w"
  "dim_dates (snd (load_raw_data now files w)) = dim_dates w"
  "dim_channels (snd (load_raw_data now files w)) = dim_channels w"
  "fct_messages (snd (load_raw_data now files w)) = fct_messages w"
  by (simp_all add: load_raw_data_def Let_def)

lemma load_raw_data_raw:
  "raw_telegram_messages (snd (load_raw_data now files w))
     = Some (raw_rows (snd (load_raw_data now files w)))"
  by (simp add: load_raw_data_def raw_rows_def Let_def)

lemma load_raw_data_rows_cong:
  "raw_rows w = raw_rows w' \<Longrightarrow>
     raw_rows (snd (load_raw_data now files w)) = raw_rows (snd (load_raw_data now files w'))"
  by (simp add: load_raw_data_def raw_rows_def Let_def)

lemma first_run_dim_dates:
  assumes "raw_telegram_messages w = Some tbl" and "stg_telegram_messages w = None"
    and "dim_dates w = None"
    and "stg_date_range (stg_select now tbl) = (Some lo, Some hi)" and "lo \<le> hi"
  shows "dim_dates (built (create_star_schema now w)) = Some (dim_dates_select (lo - 30, hi + 30))"
    and "stg_telegram_messages (built (create_star_schema now w)) = Some (stg_select now tbl)"
    and "raw_telegram_messages (built (create_star_schema now w)) = Some tbl"
    and "dim_channels (built (create_star_schema now w)) \<noteq> None"
    and "fct_messages (built (create_star_schema now w)) \<noteq> None"
  using assms by (simp_all add: create_star_schema_fresh built_def dim_date_bounds_def)

lemma w_loaded1_tables:
  "raw_telegram_messages w_loaded1 = Some (raw_rows w_loaded1)"
  "stg_telegram_messages w_loaded1 = None" "dim_dates w_loaded1 = None"
  "dim_channels w_loaded1 = None" "fct_messages w_loaded1 = None"
  by (simp_all add: w_loaded1_def load_raw_data_raw load_raw_data_tables empty_warehouse_def)

lemma w_loaded1_range:
  "stg_date_range (stg_select (19010, 0) (raw_rows w_loaded1)) = (Some 19000, Some 19000)"
  by code_simp

lemma w_run1_tables:
  "dim_dates w_run1 = Some (dim_dates_select (18970, 19030))"
  "stg_telegram_messages w_run1 = Some (stg_select (19010, 0) (raw_rows w_loaded1))"
  "raw_telegram_messages w_run1 = Some (raw_rows w_loaded1)"
  "dim_channels w_run1 \<noteq> None" "fct_messages w_run1 \<noteq> None"
  using first_run_dim_dates [OF w_loaded1_tables(1-3) w_loaded1_range]
  by (simp_all add: w_run1_def)

lemma w_loaded2_rows:
  "map (\<lambda>r. map_option DATE (message_date r)) (raw_rows w_loaded2) = [Some 19000, Some 19100]"
proof -
  have "raw_rows w_run1 = raw_rows w_loaded1"
    by (simp add: raw_rows_def w_run1_tables)
  then have "raw_rows w_loaded2 = raw_rows (snd (load_raw_data (19200, 0) [file_a_late] w_loaded1))"
    unfolding w_loaded2_def by (rule load_raw_data_rows_cong)
  moreover have "map (\<lambda>r. map_option DATE (message_date r))
      (raw_rows (snd (load_raw_data (19200, 0) [file_a_late] w_loaded1))) = [Some 19000, Some 19100]"
    by code_simp
  ultimately show ?thesis by simp
qed

lemma w_loaded2_staged:
  "map (\<lambda>s. map_option DATE (message_date s)) (stg_select (19200, 0) (raw_rows w_loaded2))
     = [Some 19000, Some 19100]"
proof -
  have "raw_rows w_run1 = raw_rows w_loaded1"
    by (simp add: raw_rows_def w_run1_tables)
  then have "raw_rows w_loaded2 = raw_rows (snd (load_raw_data (19200, 0) [file_a_late] w_loaded1))"
    unfolding w_loaded2_def by (rule load_raw_data_rows_cong)
  moreover have "map (\<lambda>s. map_option DATE (message_date s)) (stg_select (19200, 0)
      (raw_rows (snd (load_raw_data (19200, 0) [file_a_late] w_loaded1)))) = [Some 19000, Some 19100]"
    by code_simp
  ultimately show ?thesis by simp
qed

text \<open>
  C3, as the code has it. Every table is created with \<^verbatim>\<open>CREATE TABLE IF NOT EXISTS\<close>:
  once \<^const>\<open>create_star_schema\<close> has built the warehouse, a later run, at any time and
  after any further loading of raw files, leaves the staging table, both dimensions and
  the fact table exactly as they are. So a re-run creates no duplicate row, and a date
  range that has widened in the raw data does not reach the date dimension.
\<close>

theorem rerun_keeps_tables:
  assumes "create_star_schema now w = Inr w'"
  shows "\<exists>w''. create_star_schema now2 (snd (load_raw_data now1 files w')) = Inr w''
     \<and> stg_telegram_messages w'' = stg_telegram_messages w'
     \<and> dim_dates w'' = dim_dates w'
     \<and> dim_channels w'' = dim_channels w'
     \<and> fct_messages w'' = fct_messages w'"
proof -
  let ?w = "snd (load_raw_data now1 files w')"
  from create_star_schema_tables [OF assms]
  obtain stg dd dc fct where t: "stg_telegram_messages w' = Some stg" "dim_dates w' = Some dd"
    "dim_channels w' = Some dc" "fct_messages w' = Some fct"
    by auto
  then have "create_star_schema now2 ?w = Inr ?w"
    by (intro create_star_schema_built) (simp_all add: load_raw_data_tables)
  then show ?thesis
    by (simp add: load_raw_data_tables)
qed

theorem rerun_keeps_tables_witness:
  "create_star_schema (19010, 0) w_loaded1 = Inr w_run1
   \<and> (\<exists>w''. create_star_schema (19200, 0) (snd (load_raw_data (19200, 0) [file_a_late] w_run1)) = Inr w''
     \<and> stg_telegram_messages w'' = stg_telegram_messages w_run1
     \<and> dim_dates w'' = dim_dates w_run1
     \<and> dim_channels w'' = dim_channels w_run1
     \<and> fct_messages w'' = fct_messages w_run1)"
proof -
  have h: "create_star_schema (19010, 0) w_loaded1 = Inr w_run1"
    by (simp add: w_run1_def built_def create_star_schema_fresh [OF w_loaded1_tables(1,2)])
  from rerun_keeps_tables [OF h] h show ?thesis by blast
qed

text \<open>
  C3, as the specification has it, fails. After a first run over a message of day 19000
  and the loading of a message of day 19100, the raw table holds both days, and the
  second run leaves the date dimension at days 18970 to 19030. Even when the staging
  table is dropped before the second run, so that it is rebuilt with both days, the
  date dimension stays at days 18970 to 19030 and does not cover day 19100.
\<close>

theorem rerun_keeps_narrow_range:
  "map (\<lambda>r. map_option DATE (message_date r)) (raw_rows w_loaded2) = [Some 19000, Some 19100]
   \<and> full_dates_of (create_star_schema (19200, 0) w_loaded2) = Some [18970..19030]
   \<and> stg_dates_of (create_star_schema (19200, 0) (w_loaded2\<lparr>stg_telegram_messages := None\<rparr>))
       = Some [Some 19000, Some 19100]
   \<and> full_dates_of (create_star_schema (19200, 0) (w_loaded2\<lparr>stg_telegram_messages := None\<rparr>))
       = Some [18970..19030]"
proof -
  have t: "dim_dates w_loaded2 = Some (dim_dates_select (18970, 19030))"
    "stg_telegram_messages w_loaded2 = Some (stg_select (19010, 0) (raw_rows w_loaded1))"
    "raw_telegram_messages w_loaded2 = Some (raw_rows w_loaded2)"
    by (simp_all add: w_loaded2_def load_raw_data_tables load_raw_data_raw w_run1_tables)
  obtain dc fct where u: "dim_channels w_loaded2 = Some dc" "fct_messages w_loaded2 = Some fct"
    using w_run1_tables(4,5) by (auto simp: w_loaded2_def load_raw_data_tables)
  have d: "map full_date (dim_dates_select (18970, 19030)) = [18970..19030]"
    by (simp add: full_dates_select date_range_upto)
  have a: "create_star_schema (19200, 0) w_loaded2 = Inr w_loaded2"
    using t u by (intro create_star_schema_built) simp_all
  have b: "full_dates_of (create_star_schema (19200, 0) w_loaded2) = Some [18970..19030]"
    by (simp add: a full_dates_of_def t d)
  have c: "create_star_schema (19200, 0) (w_loaded2\<lparr>stg_telegram_messages := None\<rparr>)
      = Inr (w_loaded2\<lparr>stg_telegram_messages := Some (stg_select (19200, 0) (raw_rows w_loaded2))\<rparr>)"
    using t u by (simp add: create_star_schema_def Let_def)
  show ?thesis
    using w_loaded2_rows w_loaded2_staged b
    by (simp add: c full_dates_of_def stg_dates_of_def t d)
qed

subsection \<open>The record loader\<close>

lemma insert_messages_fst:
  "fst (insert_messages now es tbl) = None \<longleftrightarrow> list_all entry_ok es"
proof (induction es arbitrary: tbl)
  case Nil
  then show ?case by simp
next
  case (Cons e es)
  then show ?case
    by (cases e) (simp_all add: entry_ok_def)
qed

lemma load_file_fst:
  "fst (load_file now f acc) = fst acc + (if loads_ok f then seen f else 0)"
proof (cases "snd f")
  case None
  then show ?thesis by (simp add: load_file_def loads_ok_def)
next
  case (Some data)
  obtain e tbl where r: "insert_messages now (messages_of data) (snd acc) = (e, tbl)"
    by (cases "insert_messages now (messages_of data) (snd acc)")
  with insert_messages_fst [of now "messages_of data" "snd acc"]
  have "e = None \<longleftrightarrow> list_all entry_ok (messages_of data)" by simp
  with Some r show ?thesis
    by (cases e) (simp_all add: load_file_def loads_ok_def seen_def Let_def)
qed

lemma fold_load_file_fst:
  "fst (fold (load_file now) fs acc) = fst acc + sum_list (map seen (filter loads_ok fs))"
  by (induction fs arbitrary: acc) (simp_all add: load_file_fst)

lemma execute_batch_Some:
  "(\<exists>tbl'. execute_batch accepts now ms tbl = Some tbl') \<longleftrightarrow>
     list_all (\<lambda>m. pg_entry_ok accepts (Dict m)) ms"
proof (induction ms arbitrary: tbl)
  case Nil
  then show ?case by simp
next
  case (Cons m ms)
  show ?case
  proof (cases "pg_insert accepts now m tbl")
    case None
    then have "\<not> pg_entry_ok accepts (Dict m)"
      by (auto simp: pg_insert_def pg_entry_ok_def split: option.splits if_splits)
    with None show ?thesis by simp
  next
    case (Some t)
    then have "pg_entry_ok accepts (Dict m)"
      by (auto simp: pg_insert_def pg_entry_ok_def split: option.splits if_splits)
    with Some Cons.IH [of t] show ?thesis by simp
  qed
qed

lemma data_to_insert_Some:
  "data_to_insert es = Some ms \<Longrightarrow> es = map Dict ms"
proof (induction es arbitrary: ms)
  case Nil
  then show ?case by simp
next
  case (Cons e es)
  then show ?case by (cases e) auto
qed

lemma data_to_insert_None:
  "data_to_insert es = None \<Longrightarrow> \<not> list_all (pg_entry_ok accepts) es"
proof (induction es)
  case Nil
  then show ?case by simp
next
  case (Cons e es)
  then show ?case by (cases e) (auto simp: pg_entry_ok_def)
qed

lemma pg_load_file_fst:
  "fst (pg_load_file accepts now f acc) = fst acc + (if pg_loads_ok accepts f then seen f else 0)"
proof (cases "snd f")
  case None
  then show ?thesis by (simp add: pg_load_file_def pg_loads_ok_def)
next
  case (Some data)
  show ?thesis
  proof (cases data)
    case (JSingle e)
    with Some show ?thesis by (simp add: pg_load_file_def pg_loads_ok_def)
  next
    case (JList es)
    show ?thesis
    proof (cases "data_to_insert es")
      case None
      from data_to_insert_None [OF this] Some JList None show ?thesis
        by (simp add: pg_load_file_def pg_loads_ok_def)
    next
      case rows: (Some ms)
      then have es: "es = map Dict ms" by (rule data_to_insert_Some)
      then have ok: "list_all (pg_entry_ok accepts) es \<longleftrightarrow>
          list_all (\<lambda>m. pg_entry_ok accepts (Dict m)) ms"
        by (simp add: list_all_iff)
      show ?thesis
      proof (cases "execute_batch accepts now ms (snd acc)")
        case None
        with execute_batch_Some [of accepts now ms "snd acc"] ok
        have "\<not> list_all (pg_entry_ok accepts) es" by simp
        with Some JList rows None show ?thesis
          by (simp add: pg_load_file_def pg_loads_ok_def)
      next
        case (Some t)
        with execute_batch_Some [of accepts now ms "snd acc"] ok
        have "list_all (pg_entry_ok accepts) es" by simp
        with \<open>snd f = Some data\<close> JList rows Some show ?thesis
          by (simp add: pg_load_file_def pg_loads_ok_def seen_def messages_of_def)
      qed
    qed
  qed
qed

lemma fold_pg_load_file_fst:
  "fst (fold (pg_load_file accepts now) fs acc)
     = fst acc + sum_list (map seen (filter (pg_loads_ok accepts) fs))"
  by (induction fs arbitrary: acc) (simp_all add: pg_load_file_fst)

lemma load_json_to_postgres_fst:
  "fst (load_json_to_postgres accepts now files tbl)
     = sum_list (map seen (filter (pg_loads_ok accepts) files))"
  by (simp add: load_json_to_postgres_def fold_pg_load_file_fst)

text \<open>
  C4, as the code has it. Both loaders return the number of entries seen: the sum of
  \<^verbatim>\<open>len(messages)\<close> over the files that were read and processed without an
  exception, whether an entry was inserted or ignored as a duplicate.
  \<^const>\<open>load_raw_data\<close> leaves the manifest files out and counts the non-objects it
  skips; in \<^const>\<open>load_json_to_postgres\<close> a non-object or a rejected row makes its
  file raise.
\<close>

theorem load_raw_data_counts_seen:
  "fst (load_raw_data now files w) =
     sum_list (map seen
       (filter (\<lambda>f. \<not> LIKE_contains (fst f) ''_manifest.json'' \<and> loads_ok f) files))
   \<and> fst (load_json_to_postgres accepts now json_files tbl) =
     sum_list (map seen (filter (pg_loads_ok accepts) json_files))"
  by (simp add: load_raw_data_def Let_def fold_load_file_fst filter_filter conj_commute
      load_json_to_postgres_fst)

theorem load_raw_data_counts_seen_witness:
  "fst (load_raw_data (19010, 0) [file_dup] empty_warehouse) = 3
   \<and> fst (load_json_to_postgres (\<lambda>m. True) (19010, 0) [file_dup2] []) = 2"
proof -
  have "sum_list (map seen (filter
      (\<lambda>f. \<not> LIKE_contains (fst f) ''_manifest.json'' \<and> loads_ok f) [file_dup])) = 3"
    by code_simp
  moreover have "sum_list (map seen (filter (pg_loads_ok (\<lambda>m. True)) [file_dup2])) = 2"
    by code_simp
  ultimately show ?thesis
    using load_raw_data_counts_seen
      [where now = "(19010, 0)" and files = "[file_dup]" and w = empty_warehouse
        and accepts = "\<lambda>m. True" and json_files = "[file_dup2]" and tbl = "[]"]
    by simp
qed

text \<open>
  C4, as the specification has it, fails: a file holding the same message twice and one
  non-object, loaded into the empty database, inserts one row and returns 3; a file
  holding the same message twice, loaded into the empty PostgreSQL table, inserts one
  row and returns 2.
\<close>

theorem load_counts_seen_not_inserted:
  "fst (load_raw_data (19010, 0) [file_dup] empty_warehouse) = 3
   \<and> length (raw_rows empty_warehouse) = 0
   \<and> length (raw_rows (snd (load_raw_data (19010, 0) [file_dup] empty_warehouse))) = 1
   \<and> fst (load_json_to_postgres (\<lambda>m. True) (19010, 0) [file_dup2] []) = 2
   \<and> length (snd (load_json_to_postgres (\<lambda>m. True) (19010, 0) [file_dup2] [])) = 1"
  by code_simp

subsection \<open>The test runner\<close>

lemma run_tests_loop_eq:
  "run_tests_loop now w ts (ap, rs) =
     (ap \<and> list_all (test_ok now w) ts, rs @ concat (map (reported now w) ts))"
proof (induction ts arbitrary: ap rs)
  case Nil
  then show ?case by simp
next
  case (Cons t ts)
  obtain name q z where t: "t = (name, q, z)" by (cases t)
  show ?case
  proof (cases "q now w")
    case (Inl e)
    with t Cons.IH show ?thesis by (simp add: test_ok_def reported_def)
  next
    case (Inr res)
    with t Cons.IH show ?thesis
      by (auto simp: test_ok_def reported_def verdict_def Let_def)
  qed
qed

text \<open>
  C5, as the code has it. A check whose query raises is left out of the returned (and
  saved) results and clears \<^verbatim>\<open>all_passed\<close>; every other check is executed and
  reported, in order; \<^verbatim>\<open>all_passed\<close> holds exactly when every check ran without an
  error and passed.
\<close>

theorem run_data_tests_report:
  "run_data_tests now w =
     (list_all (test_ok now w) tests, concat (map (reported now w) tests))"
  by (simp add: run_data_tests_def run_tests_loop_eq)

theorem run_data_tests_report_witness:
  "run_data_tests (19010, 0) w_staged_only =
     (False, [\<lparr>test = ''No future dates'', passed = True, result = 0\<rparr>,
              \<lparr>test = ''No negative views'', passed = True, result = 0\<rparr>])"
proof -
  have "list_all (test_ok (19010, 0) w_staged_only) tests = False"
    by code_simp
  moreover have "concat (map (reported (19010, 0) w_staged_only) tests) =
     [\<lparr>test = ''No future dates'', passed = True, result = 0\<rparr>,
      \<lparr>test = ''No negative views'', passed = True, result = 0\<rparr>]"
    by code_simp
  ultimately show ?thesis
    using run_data_tests_report [of "(19010, 0)" w_staged_only] by simp
qed

text \<open>
  C5, as the specification has it, fails. On a database with the staging table and no
  other, the third check raises; the results hold the first two checks only, both
  passed, the saved report has the same two rows, and \<^verbatim>\<open>all_passed\<close> is false. On a
  database with the raw table only, every check raises and the results are empty.
\<close>

theorem erroring_check_not_reported:
  "all_channels_have_type (19010, 0) w_staged_only = Inl OperationalError
   \<and> run_data_tests (19010, 0) w_staged_only =
       (False, [\<lparr>test = ''No future dates'', passed = True, result = 0\<rparr>,
                \<lparr>test = ''No negative views'', passed = True, result = 0\<rparr>])
   \<and> save_test_results (snd (run_data_tests (19010, 0) w_staged_only)) =
       [(''No future dates'', ''PASS'', 0), (''No negative views'', ''PASS'', 0)]
   \<and> no_future_dates (19010, 0) w_loaded1 = Inl OperationalError
   \<and> run_data_tests (19010, 0) w_loaded1 = (False, [])"
  by code_simp

subsection \<open>The fact table\<close>

lemma length_concat_const:
  "length (concat (map (\<lambda>x. f x) xs)) = sum_list (map (\<lambda>x. length (f x)) xs)"
  by (induction xs) simp_all

lemma LEFT_JOIN_cases:
  "LEFT_JOIN P tbl = (if filter P tbl = [] then [None] else map Some (filter P tbl))"
  by (simp add: LEFT_JOIN_def split: list.splits)

lemma fct_select_append: "fct_select (xs @ ys) dc dd = fct_select xs dc dd @ fct_select ys dc dd"
  by (simp add: fct_select_def)

text \<open>
  The fact rows of one staging row: none when the row is not valid, otherwise one for
  each pair of a channel row of the same name and a date row of the same day.
\<close>

lemma fct_rows_per_staging_row:
  "length (fct_select [m] dc dd) =
     (if data_quality_status m = ''valid''
      then length (filter (\<lambda>c. channel_name m = dc_channel_name c) dc)
         * length (filter (\<lambda>d. map_option DATE (message_date m) = Some (full_date d)) dd)
      else 0)"
proof -
  let ?cs = "filter (\<lambda>c. channel_name m = dc_channel_name c) dc"
  let ?ds = "filter (\<lambda>d. map_option DATE (message_date m) = Some (full_date d)) dd"
  show ?thesis
  proof (cases "?cs = []")
    case True
    then show ?thesis
      by (simp add: fct_select_def LEFT_JOIN_cases length_concat_const comp_def)
  next
    case cs: False
    show ?thesis
    proof (cases "?ds = []")
      case True
      with cs show ?thesis
        by (simp add: fct_select_def LEFT_JOIN_cases length_concat_const comp_def sum_list_0)
    next
      case False
      with cs show ?thesis
        by (simp add: fct_select_def LEFT_JOIN_cases length_concat_const comp_def
            sum_list_triv)
    qed
  qed
qed

text \<open>
  C1 at a failing input. The channel \<open>x\<close> was scraped under two titles, so the channel
  dimension has two rows named \<open>x\<close>, with keys 1 and 2. The two staging rows are
  valid; the join on the channel name alone pairs each of them with both dimension rows,
  and the fact table holds four rows: each message once under each channel key.
\<close>

theorem fact_join_fans_out:
  "stg_ids_of (create_star_schema (19010, 0) w_two_titles) = Some [(1, ''valid''), (2, ''valid'')]
   \<and> fct_keys_of (create_star_schema (19010, 0) w_two_titles)
       = Some [(1, 1, 20220108), (1, 2, 20220108), (2, 1, 20220108), (2, 2, 20220108)]"
  by code_simp

subsection \<open>The staging table\<close>



lemma stg_select_row:
  assumes "s \<in> set (stg_select now tbl)"
  obtains r where "r \<in> set tbl" and "message_date r \<noteq> None"
    and "s = cleaned_data now (r\<lparr>views := COALESCE (views r) 0, forwards := COALESCE (forwards r) 0\<rparr>)"
    and "\<not> is_future_date s"
  using assms by (auto simp: stg_select_def raw_data_def)

lemma cleaned_data_columns:
  "message_date (cleaned_data now r) = message_date r"
  "message_text (cleaned_data now r) = message_text r"
  "is_future_date (cleaned_data now r) = is_true (sql_gt (message_date r) (Some now))"
  "message_length (cleaned_data now r) = map_option (\<lambda>t. int (length (TRIM t))) (message_text r)"
  "is_empty_message (cleaned_data now r) = (case message_text r of None \<Rightarrow> True | Some t \<Rightarrow> TRIM t = '''')"
  by (simp_all add: cleaned_data_def Let_def)




text \<open>
  C8, as the code has it. For a staging row with a text, the stored length is the length
  of the trimmed text, a number that is not negative. For a staging row whose text is
  NULL the stored length is NULL, and the row is flagged as an empty message that needs
  review.
\<close>

theorem message_length_trimmed:
  assumes "s \<in> set (stg_select now tbl)"
  shows "(case message_text s of
            None \<Rightarrow> message_length s = None \<and> is_empty_message s
                      \<and> data_quality_status s = ''needs_review''
          | Some t \<Rightarrow> message_length s = Some (int (length (TRIM t)))
                      \<and> 0 \<le> int (length (TRIM t)))"
proof -
  from assms obtain r where
    "s = cleaned_data now (r\<lparr>views := COALESCE (views r) 0, forwards := COALESCE (forwards r) 0\<rparr>)"
    by (rule stg_select_row)
  then show ?thesis
    by (simp add: cleaned_data_def Let_def split: option.splits)
qed

theorem message_length_trimmed_witness:
  "cleaned_data (19010, 0) raw_a \<in> set (stg_select (19010, 0) [raw_a])
   \<and> message_text (cleaned_data (19010, 0) raw_a) = Some ''hello''
   \<and> message_length (cleaned_data (19010, 0) raw_a) = Some 5"
proof -
  have a: "cleaned_data (19010, 0) raw_a \<in> set (stg_select (19010, 0) [raw_a])"
    by code_simp
  have b: "message_text (cleaned_data (19010, 0) raw_a) = Some ''hello''"
    by (simp add: cleaned_data_columns raw_a_def)
  have "int (length (TRIM ''hello'')) = 5" by code_simp
  with message_length_trimmed [OF a] a b show ?thesis
    by simp
qed

text \<open>
  C8, as the specification has it, fails for a null text: a message object whose text is
  a JSON null is stored with a NULL text, and its staging row has the length NULL, no
  number at all.
\<close>

theorem null_text_length_is_null:
  "map (\<lambda>s. (message_text s, message_length s, data_quality_status s))
     (stg_select (19010, 0)
        (raw_rows (snd (load_raw_data (19010, 0) [file_null_text] empty_warehouse))))
   = [(None, None, ''needs_review'')]"
  by code_simp

subsection \<open>The channel dimension\<close>

lemma set_distinct_first: "set (distinct_first xs) = set xs"
  by (simp add: distinct_first_def)

lemma channel_groups_nonempty:
  assumes "g \<in> set (channel_groups stg)"
  shows "snd g \<noteq> []"
proof -
  let ?valid = "filter (\<lambda>s. data_quality_status s = ''valid'') stg"
  from assms obtain k where k: "k \<in> set (map channel_group_key ?valid)"
    and g: "g = (k, filter (\<lambda>s. channel_group_key s = k) ?valid)"
    by (auto simp: channel_groups_def Let_def set_distinct_first)
  from k obtain s where "s \<in> set ?valid" "channel_group_key s = k" by auto
  then have "s \<in> set (filter (\<lambda>s. channel_group_key s = k) ?valid)" by simp
  then have "filter (\<lambda>s. channel_group_key s = k) ?valid \<noteq> []"
    by (metis empty_iff empty_set)
  with g show ?thesis by simp
qed

lemma dim_channels_select_row:
  assumes "c \<in> set (dim_channels_select now stg)"
  obtains key g where "g \<in> set (channel_groups stg)" and "c = dim_channel_of now key g"
proof -
  from assms obtain i g where
    ig: "(i, g) \<in> set (enumerate 0 (sort_key (\<lambda>g. - COUNT_star (snd g)) (channel_groups stg)))"
    and c: "c = dim_channel_of now (int i + 1) g"
    by (auto simp: dim_channels_select_def)
  from ig have "snd (i, g) \<in> snd ` set
      (enumerate 0 (sort_key (\<lambda>g. - COUNT_star (snd g)) (channel_groups stg)))"
    by (rule imageI)
  then have "g \<in> set (map snd
      (enumerate 0 (sort_key (\<lambda>g. - COUNT_star (snd g)) (channel_groups stg))))"
    by (simp only: set_map snd_conv)
  then have "g \<in> set (channel_groups stg)"
    by (simp only: map_snd_enumerate set_sort)
  with c that show thesis by blast
qed

lemma non_null_Some: "non_null (map (\<lambda>s. Some (f s)) rows) = map f rows"
  by (induction rows) (simp_all add: non_null_def)

lemma SUM_agg_alt:
  "SUM_agg xs = (if non_null xs = [] then None else Some (sum_list (non_null xs)))"
  by (simp add: SUM_agg_def split: list.splits)

lemma SUM_agg_indicator:
  assumes "rows \<noteq> []"
  shows "SUM_agg (map (\<lambda>s. Some (if P s then 1 else 0)) rows) = Some (int (length (filter P rows)))"
proof -
  have "sum_list (map (\<lambda>s. if P s then 1 else 0) rows) = int (length (filter P rows))"
    by (induction rows) simp_all
  with assms show ?thesis
    by (simp add: SUM_agg_alt non_null_Some)
qed

lemma percentage_bounds:
  assumes "0 \<le> k" and "k \<le> n" and "1 \<le> n"
  shows "\<exists>p. percentage (Some k) n = Some p \<and> 0 \<le> p \<and> p \<le> 100"
proof -
  let ?x = "(of_int k * 100 / of_int n) :: rat"
  have n: "(0::rat) < of_int n" using assms by simp
  have x0: "0 \<le> ?x" using assms by simp
  have "(of_int k :: rat) \<le> of_int n" using assms by simp
  then have x1: "?x \<le> 100" using n by (simp add: divide_le_eq)
  have p: "percentage (Some k) n = Some (of_int \<lfloor>?x * 100 + 1 / 2\<rfloor> / 100)"
    using assms x0 by (simp add: percentage_def NULLIF_def sql_div_def ROUND2_def)
  define f where "f = \<lfloor>?x * 100 + 1 / 2\<rfloor>"
  have "0 \<le> ?x * 100 + 1 / 2" using x0 by simp
  then have f0: "0 \<le> f" unfolding f_def by (simp only: zero_le_floor)
  have "?x * 100 + 1 / 2 < of_int 10001" using x1 by simp
  then have "f < 10001" unfolding f_def by (simp only: floor_less_iff)
  then have f1: "f \<le> 10000" by simp
  have "(0::rat) \<le> of_int f" using f0 by simp
  then have r0: "(0::rat) \<le> of_int f / 100" by simp
  have "(of_int f :: rat) \<le> of_int 10000" using f1 by (simp only: of_int_le_iff)
  then have r1: "(of_int f / 100 :: rat) \<le> 100" by simp
  from p have "percentage (Some k) n = Some (of_int f / 100)" by (simp only: f_def)
  with r0 r1 show ?thesis by blast
qed


lemma dim_channel_of_percentages:
  assumes "snd g \<noteq> []"
  shows "1 \<le> total_posts (dim_channel_of now key g)"
    and "\<exists>p. media_percentage (dim_channel_of now key g) = Some p \<and> 0 \<le> p \<and> p \<le> 100"
    and "\<exists>p. image_percentage (dim_channel_of now key g) = Some p \<and> 0 \<le> p \<and> p \<le> 100"
proof -
  have len: "1 \<le> int (length (snd g))" using assms by (cases "snd g") simp_all
  show "1 \<le> total_posts (dim_channel_of now key g)"
    using len by (simp add: dim_channel_of_def Let_def COUNT_star_def)
  have "media_percentage (dim_channel_of now key g) =
      percentage (Some (int (length (filter (\<lambda>s. has_media s = Some True) (snd g))))) (int (length (snd g)))"
    using assms by (simp add: dim_channel_of_def Let_def COUNT_star_def SUM_agg_indicator)
  then show "\<exists>p. media_percentage (dim_channel_of now key g) = Some p \<and> 0 \<le> p \<and> p \<le> 100"
    using percentage_bounds [of "int (length (filter (\<lambda>s. has_media s = Some True) (snd g)))" "int (length (snd g))"] len
    by simp
  have "image_percentage (dim_channel_of now key g) =
      percentage (Some (int (length (filter has_image (snd g))))) (int (length (snd g)))"
    using assms by (simp add: dim_channel_of_def Let_def COUNT_star_def SUM_agg_indicator)
  then show "\<exists>p. image_percentage (dim_channel_of now key g) = Some p \<and> 0 \<le> p \<and> p \<le> 100"
    using percentage_bounds [of "int (length (filter has_image (snd g)))" "int (length (snd g))"] len
    by simp
qed

lemma create_star_schema_dim_channels:
  assumes "create_star_schema now w = Inr w'" and "dim_channels w = None"
  shows "\<exists>stg. stg_telegram_messages w' = Some stg \<and> dim_channels w' = Some (dim_channels_select now stg)"
  using assms
  by (auto simp: create_star_schema_def Let_def split: option.splits sum.splits)

lemma first_run_tables:
  assumes "raw_telegram_messages w = Some tbl" and "stg_telegram_messages w = None"
    and "dim_channels w = None"
  shows "create_star_schema now w = Inr (built (create_star_schema now w))"
    and "dim_channels (built (create_star_schema now w))
      = Some (dim_channels_select now (stg_select now tbl))"
  using assms by (simp_all add: create_star_schema_def built_def Let_def)


text \<open>
  C10. Every row of the channel dimension that \<^const>\<open>create_star_schema\<close> builds comes
  from a group of at least one valid staging row: its \<^verbatim>\<open>total_posts\<close> is at least 1,
  \<^verbatim>\<open>NULLIF(total_posts, 0)\<close> is \<^verbatim>\<open>total_posts\<close> itself (the guard never fires),
  and neither percentage is NULL.
\<close>

theorem channel_rows_have_posts:
  assumes "create_star_schema now w = Inr w'" and "dim_channels w = None"
    and "dim_channels w' = Some dc" and "c \<in> set dc"
  shows "1 \<le> total_posts c \<and> NULLIF (total_posts c) 0 = Some (total_posts c)
     \<and> media_percentage c \<noteq> None \<and> image_percentage c \<noteq> None"
proof -
  from create_star_schema_dim_channels [OF assms(1,2)] assms(3,4)
  obtain stg where "c \<in> set (dim_channels_select now stg)" by auto
  then obtain key g where g: "g \<in> set (channel_groups stg)" and c: "c = dim_channel_of now key g"
    by (rule dim_channels_select_row)
  from g have "snd g \<noteq> []" by (rule channel_groups_nonempty)
  from dim_channel_of_percentages [OF this, of now key] c show ?thesis
    by (auto simp: NULLIF_def)
qed

theorem channel_rows_have_posts_witness:
  "create_star_schema (19010, 0) w_loaded1 = Inr w_run1 \<and> dim_channels w_loaded1 = None
   \<and> dim_channels w_run1 = Some [chan_x] \<and> chan_x \<in> set [chan_x]
   \<and> 1 \<le> total_posts chan_x \<and> NULLIF (total_posts chan_x) 0 = Some (total_posts chan_x)
   \<and> media_percentage chan_x \<noteq> None \<and> image_percentage chan_x \<noteq> None"
proof -
  note t = w_loaded1_tables(1,2,4)
  have a: "create_star_schema (19010, 0) w_loaded1 = Inr w_run1"
    unfolding w_run1_def by (rule first_run_tables(1) [OF t])
  have "dim_channels_select (19010, 0) (stg_select (19010, 0) (raw_rows w_loaded1)) = [chan_x]"
    by code_simp
  then have b: "dim_channels w_run1 = Some [chan_x]"
    unfolding w_run1_def by (simp add: first_run_tables(2) [OF t])
  have c: "chan_x \<in> set [chan_x]" by simp
  from channel_rows_have_posts [OF a t(3) b c] a t(3) b c show ?thesis by blast
qed




end
